theory Spec2Isabelle
  imports Complex_Main "HOL-Library.Char_ord" "HOL-Library.List_Lexorder" "HOL-Library.Sublist"
begin

section \<open>The benchmark report generator of LSPbridge\<close>

text \<open>
  A shallow embedding of \<^verbatim>\<open>scripts/generate_benchmark_charts.py\<close>: the class
  \<^verbatim>\<open>BenchmarkVisualizer\<close> and the entry point \<^verbatim>\<open>main\<close>.

  Conventions.
  \<^item> A Python \<^verbatim>\<open>str\<close> is a \<open>string\<close> holding its UTF-8 bytes. Equality, the
    lexicographic order and containment of one string in another are the same on code
    points and on their UTF-8 encoding.
  \<^item> An exception is a value of \<open>pyexn\<close>; code that may raise returns \<open>pyexn + 'a\<close>
    with \<open>Inl\<close> for the exception raised.
  \<^item> The file system the script reads is a tree of nodes. What the script writes is a
    list of the write operations it performed, in order.
  \<^item> What the script takes from its libraries and its platform (the clock, the
    failure of a system call, pandas and matplotlib, float formatting) is a field of the
    record \<open>world\<close>; a theorem holds for every value of these fields.
\<close>

subsection \<open>Exceptions\<close>

datatype pyexn =
    JSONDecodeError
  | UnicodeDecodeError
  | FileNotFoundError
  | FileExistsError
  | PermissionError
  | IsADirectoryError
  | NotADirectoryError
  | AttributeError
  | KeyError
  | TypeError
  | ValueError
  | KeyboardInterrupt

text \<open>
  \<^verbatim>\<open>except Exception\<close> catches every class but those that derive from
  \<^verbatim>\<open>BaseException\<close> only; of the classes above that is \<^verbatim>\<open>KeyboardInterrupt\<close>.
\<close>

fun is_Exception :: "pyexn \<Rightarrow> bool" where
  "is_Exception KeyboardInterrupt = False"
| "is_Exception _ = True"

text \<open>
  \<^verbatim>\<open>except (json.JSONDecodeError, FileNotFoundError)\<close>: neither class has a subclass
  among the classes above.
\<close>

fun is_load_error :: "pyexn \<Rightarrow> bool" where
  "is_load_error JSONDecodeError = True"
| "is_load_error FileNotFoundError = True"
| "is_load_error _ = False"

subsection \<open>JSON values as \<^verbatim>\<open>json.load\<close> returns them\<close>

text \<open>
  \<open>JObj\<close> lists the members of an object in document order. A float is represented by
  its exact value; the non-finite floats are not represented.
\<close>

datatype json =
    JNull
  | JBool bool
  | JInt int
  | JFloat rat
  | JStr string
  | JArr "json list"
  | JObj "(string \<times> json) list"

text \<open>\<^verbatim>\<open>json.load\<close> keeps the last member of a repeated key.\<close>

definition dict_lookup :: "(string \<times> json) list \<Rightarrow> string \<Rightarrow> json option" where
  "dict_lookup kv k = map_of (rev kv) k"

text \<open>\<^verbatim>\<open>d.get(k)\<close>: the value, \<^verbatim>\<open>None\<close> for a missing key; only a dict has \<^verbatim>\<open>get\<close>.\<close>

fun py_get :: "json \<Rightarrow> string \<Rightarrow> pyexn + json" where
  "py_get (JObj kv) k = Inr (case dict_lookup kv k of Some v \<Rightarrow> v | None \<Rightarrow> JNull)"
| "py_get _ k = Inl AttributeError"

fun num_val :: "json \<Rightarrow> rat option" where
  "num_val (JBool b) = Some (if b then 1 else 0)"
| "num_val (JInt i) = Some (of_int i)"
| "num_val (JFloat q) = Some q"
| "num_val _ = None"

text \<open>
  Python's \<^verbatim>\<open>==\<close> on these values: strings by their characters, numbers (and
  booleans, which are integers) by value, lists element by element, dicts by their keys
  and the values under them, values of different kinds unequal.
\<close>

function (sequential) py_eq :: "json \<Rightarrow> json \<Rightarrow> bool" where
  "py_eq JNull JNull = True"
| "py_eq (JStr s) (JStr t) = (s = t)"
| "py_eq (JArr xs) (JArr ys) =
     (length xs = length ys \<and> (\<forall>(x, y) \<in> set (zip xs ys). py_eq x y))"
| "py_eq (JObj kv) (JObj kw) =
     (set (map fst kv) = set (map fst kw) \<and>
      (\<forall>(k, v) \<in> set kv.
         dict_lookup kv k = Some v \<longrightarrow>
         (case dict_lookup kw k of None \<Rightarrow> False | Some w \<Rightarrow> py_eq v w)))"
| "py_eq a b = (case (num_val a, num_val b) of (Some x, Some y) \<Rightarrow> x = y | _ \<Rightarrow> False)"
  by pat_completeness auto
termination
proof (relation "measure (\<lambda>(a, b). size a)", goal_cases)
  case 1
  show ?case by simp
next
  case (2 xs ys p x y)
  have "a \<in> set zs \<Longrightarrow> size a < Suc (size_list size zs)" for a :: json and zs
    by (induction zs) auto
  from this [of x xs] 2 show ?case by (auto dest: set_zip_leftD)
next
  case (3 kv kw p k v w)
  have "(a, b) \<in> set zs \<Longrightarrow> size b < Suc (size_list (size_prod (\<lambda>x. 0) size) zs)"
    for a :: string and b :: json and zs
    by (induction zs) auto
  from this [of k v kv] 3 show ?case by auto
qed

subsection \<open>The file system the script reads\<close>

text \<open>
  A node is what a path names. A regular file carries what
  \<^verbatim>\<open>with open(p, 'r') as f: json.load(f)\<close> does on it: the value parsed, or the
  exception raised. A directory carries its entries in the order the operating system
  lists them. A broken link is a symbolic link whose target is gone: a listing has it,
  \<^verbatim>\<open>exists()\<close> and \<^verbatim>\<open>is_dir()\<close> are false on it and opening it raises
  \<^verbatim>\<open>FileNotFoundError\<close>.
\<close>

datatype node =
    RegularFile "pyexn + json"
  | Directory "(string \<times> node) list"
  | BrokenLink

text \<open>\<^verbatim>\<open>d / name\<close>: the node a path below \<open>d\<close> names, \<open>None\<close> when there is none.\<close>

definition child :: "node option \<Rightarrow> string \<Rightarrow> node option" where
  "child d name = (case d of Some (Directory es) \<Rightarrow> map_of es name | _ \<Rightarrow> None)"

fun path_exists :: "node option \<Rightarrow> bool" where
  "path_exists None = False"
| "path_exists (Some BrokenLink) = False"
| "path_exists (Some _) = True"

fun is_dir :: "node \<Rightarrow> bool" where
  "is_dir (Directory es) = True"
| "is_dir _ = False"

fun open_json_load :: "node \<Rightarrow> pyexn + json" where
  "open_json_load (RegularFile r) = r"
| "open_json_load (Directory es) = Inl IsADirectoryError"
| "open_json_load BrokenLink = Inl FileNotFoundError"

text \<open>
  \<^verbatim>\<open>glob("*_parsed.json")\<close>: the entries whose name ends in \<^verbatim>\<open>_parsed.json\<close>, in
  listing order.
\<close>

definition glob_parsed_json :: "(string \<times> node) list \<Rightarrow> (string \<times> node) list" where
  "glob_parsed_json es = filter (\<lambda>e. suffix ''_parsed.json'' (fst e)) es"

subsection \<open>What the script writes, and what it takes from its platform\<close>

text \<open>
  A path is the list of its components, the first being the benchmark directory as
  \<^verbatim>\<open>main\<close> names it. The script's effects on the file system are the calls below.
\<close>

datatype io =
    MkdirParents "string list"
  | Mkdir "string list"
  | WriteText "string list" string
  | SaveFig "string list"

text \<open>
  The fields of \<open>world\<close>:
  \<^item> \<open>environ\<close>: \<^verbatim>\<open>os.environ\<close>;
  \<^item> \<open>disk\<close>: the node a path string names when the script starts;
  \<^item> \<open>VISUALIZATION_AVAILABLE\<close>: whether matplotlib, seaborn and pandas were imported;
  \<^item> \<open>strftime_now n\<close>: the value of
    \<^verbatim>\<open>datetime.now().strftime('%Y-%m-%d %H:%M:%S')\<close> at the script's \<open>n\<close>-th reading
    of the clock;
  \<^item> \<open>io_error\<close>: the exception a call of \<open>io\<close> raises, \<open>None\<close> when it succeeds;
  \<^item> \<open>style_error\<close>: the exception \<^verbatim>\<open>plt.style.use\<close> or \<^verbatim>\<open>sns.set_palette\<close>
    raises in the constructor;
  \<^item> \<open>df_data\<close>: the rows the loop of \<^verbatim>\<open>generate_performance_trends\<close> builds from
    the runs, or the exception it raises on a run that lacks a field;
  \<^item> \<open>plot_error k\<close>: the exception pandas or matplotlib raises on the rows before
    the \<open>k\<close>-th figure is saved (\<open>k = 0\<close>: building the data frame);
  \<^item> \<open>text_summary\<close>: the summary \<^verbatim>\<open>_generate_text_summary\<close> formats from a list of
    runs that is not empty, or the exception it raises.
\<close>

record world =
  environ :: "string \<rightharpoonup> string"
  disk :: "string \<rightharpoonup> node"
  VISUALIZATION_AVAILABLE :: bool
  strftime_now :: "nat \<Rightarrow> string"
  io_error :: "io \<Rightarrow> pyexn option"
  style_error :: "pyexn option"
  df_data :: "json list \<Rightarrow> pyexn + json list"
  plot_error :: "nat \<Rightarrow> json list \<Rightarrow> pyexn option"
  text_summary :: "json list \<Rightarrow> pyexn + string"

text \<open>
  A computation with effects gives the calls it performed, in order, and its value or
  the exception that ended it.
\<close>

type_synonym 'a action = "io list \<times> (pyexn + 'a)"

definition returns :: "'a \<Rightarrow> 'a action" where
  "returns x = ([], Inr x)"

definition lift :: "pyexn + 'a \<Rightarrow> 'a action" where
  "lift r = ([], r)"

definition and_then :: "'a action \<Rightarrow> ('a \<Rightarrow> 'b action) \<Rightarrow> 'b action" where
  "and_then m f =
     (case m of
        (calls, Inl e) \<Rightarrow> (calls, Inl e)
      | (calls, Inr x) \<Rightarrow> (case f x of (calls', r) \<Rightarrow> (calls @ calls', r)))"

definition perform :: "world \<Rightarrow> io \<Rightarrow> unit action" where
  "perform w call = (case io_error w call of Some e \<Rightarrow> ([], Inl e) | None \<Rightarrow> ([call], Inr ()))"

definition check :: "pyexn option \<Rightarrow> unit action" where
  "check r = (case r of Some e \<Rightarrow> ([], Inl e) | None \<Rightarrow> ([], Inr ()))"

subsection \<open>\<^verbatim>\<open>BenchmarkVisualizer.load_benchmark_data\<close>\<close>

text \<open>
  The object holds the paths \<^verbatim>\<open>benchmark_dir / "reports"\<close>,
  \<^verbatim>\<open>benchmark_dir / "archive"\<close> and \<^verbatim>\<open>benchmark_dir / "latest"\<close>. The record
  holds the first as a path, since the script only writes below it, and the nodes the
  other two name, since the script only reads them.
\<close>

record visualizer =
  reports_dir :: "string list"
  archive_dir :: "node option"
  latest_dir :: "node option"

text \<open>\<^verbatim>\<open>__init__\<close>: the style calls are made only when the libraries are there.\<close>

definition BenchmarkVisualizer :: "world \<Rightarrow> string \<Rightarrow> visualizer action" where
  "BenchmarkVisualizer w benchmark_dir =
     and_then (if VISUALIZATION_AVAILABLE w then check (style_error w) else returns ())
       (\<lambda>_. returns
          \<lparr>reports_dir = [benchmark_dir, ''reports''],
           archive_dir = child (disk w benchmark_dir) ''archive'',
           latest_dir = child (disk w benchmark_dir) ''latest''\<rparr>)"

text \<open>
  The body of \<^verbatim>\<open>for archive_subdir in sorted(self.archive_dir.iterdir())\<close>, on the
  sorted entries, with the list \<^verbatim>\<open>data\<close> built so far. An exception the
  \<^verbatim>\<open>except\<close> clause does not name leaves the loop and the function.
\<close>

fun archive_loop :: "(string \<times> node) list \<Rightarrow> json list \<Rightarrow> pyexn + json list" where
  "archive_loop [] data = Inr data"
| "archive_loop ((name, archive_subdir) # rest) data =
     (if \<not> is_dir archive_subdir then archive_loop rest data
      else
        (case archive_subdir of
           Directory files \<Rightarrow>
             (case glob_parsed_json files of
                [] \<Rightarrow> archive_loop rest data
              | parsed_file # _ \<Rightarrow>
                  (case open_json_load (snd parsed_file) of
                     Inr benchmark_data \<Rightarrow> archive_loop rest (data @ [benchmark_data])
                   | Inl e \<Rightarrow> if is_load_error e then archive_loop rest data else Inl e))
         | _ \<Rightarrow> archive_loop rest data))"

text \<open>
  \<^verbatim>\<open>any(d.get('timestamp') == latest_data.get('timestamp') for d in data)\<close>: the
  generator is consumed up to the first true element.
\<close>

fun any_same_timestamp :: "json list \<Rightarrow> json \<Rightarrow> pyexn + bool" where
  "any_same_timestamp [] latest_data = Inr False"
| "any_same_timestamp (d # ds) latest_data =
     (case py_get d ''timestamp'' of
        Inl e \<Rightarrow> Inl e
      | Inr a \<Rightarrow>
          (case py_get latest_data ''timestamp'' of
             Inl e \<Rightarrow> Inl e
           | Inr b \<Rightarrow> if py_eq a b then Inr True else any_same_timestamp ds latest_data))"

text \<open>
  The first block of the function: the archive. \<^verbatim>\<open>sorted\<close> orders the paths of one
  directory as it orders their names; the sort is stable.
\<close>

definition load_archive :: "visualizer \<Rightarrow> pyexn + json list" where
  "load_archive self =
     (if path_exists (archive_dir self) then
        (case archive_dir self of
           Some (Directory es) \<Rightarrow> archive_loop (sort_key fst es) []
         | _ \<Rightarrow> Inl NotADirectoryError)
      else Inr [])"

text \<open>The second block: the latest run, merged into \<^verbatim>\<open>data\<close>.\<close>

definition load_latest :: "visualizer \<Rightarrow> json list \<Rightarrow> pyexn + json list" where
  "load_latest self data =
     (if path_exists (child (latest_dir self) ''latest.json'') then
        (case latest_dir self of
           Some (Directory files) \<Rightarrow>
             (case glob_parsed_json files of
                [] \<Rightarrow> Inr data
              | parsed_file # _ \<Rightarrow>
                  (case open_json_load (snd parsed_file) of
                     Inl e \<Rightarrow> if is_load_error e then Inr data else Inl e
                   | Inr latest_data \<Rightarrow>
                       (case any_same_timestamp data latest_data of
                          Inl e \<Rightarrow> if is_load_error e then Inr data else Inl e
                        | Inr found \<Rightarrow>
                            if \<not> found then Inr (data @ [latest_data]) else Inr data)))
         | _ \<Rightarrow> Inr data)
      else Inr data)"

definition load_benchmark_data :: "visualizer \<Rightarrow> pyexn + json list" where
  "load_benchmark_data self =
     (case load_archive self of
        Inl e \<Rightarrow> Inl e
      | Inr data \<Rightarrow> load_latest self data)"

subsection \<open>\<^verbatim>\<open>generate_performance_trends\<close> and \<^verbatim>\<open>_generate_text_summary\<close>\<close>

definition generate_text_summary :: "world \<Rightarrow> json list \<Rightarrow> pyexn + string" where
  "generate_text_summary w data =
     (if data = [] then Inr ''No benchmark data available for visualization.\<newline>''
      else text_summary w data)"

text \<open>
  Each of the four chart methods computes its figure, saves it below the reports
  directory and returns a fixed line of Markdown.
\<close>

definition chart :: "world \<Rightarrow> visualizer \<Rightarrow> nat \<Rightarrow> string \<Rightarrow> string \<Rightarrow> json list \<Rightarrow> string action" where
  "chart w self k png markdown df =
     and_then (check (plot_error w k df))
       (\<lambda>_. and_then (perform w (SaveFig (reports_dir self @ [png])))
          (\<lambda>_. returns markdown))"

definition generate_overall_trends_chart :: "world \<Rightarrow> visualizer \<Rightarrow> json list \<Rightarrow> string action" where
  "generate_overall_trends_chart w self df =
     chart w self 1 ''performance_trends.png''
       ''![Performance Trends](./performance_trends.png)\<newline>'' df"

definition generate_group_performance_chart :: "world \<Rightarrow> visualizer \<Rightarrow> json list \<Rightarrow> string action" where
  "generate_group_performance_chart w self df =
     chart w self 2 ''group_performance.png''
       ''![Group Performance](./group_performance.png)\<newline>'' df"

definition generate_recent_changes_chart :: "world \<Rightarrow> visualizer \<Rightarrow> json list \<Rightarrow> string action" where
  "generate_recent_changes_chart w self df =
     chart w self 3 ''recent_changes.png''
       ''![Recent Changes](./recent_changes.png)\<newline>'' df"

definition generate_distribution_chart :: "world \<Rightarrow> visualizer \<Rightarrow> json list \<Rightarrow> string action" where
  "generate_distribution_chart w self df =
     chart w self 4 ''performance_distribution.png''
       ''![Performance Distribution](./performance_distribution.png)\<newline>'' df"

text \<open>\<^verbatim>\<open>sep.join(xs)\<close>\<close>

fun join :: "string \<Rightarrow> string list \<Rightarrow> string" where
  "join sep [] = []"
| "join sep [x] = x"
| "join sep (x # y # ys) = x @ sep @ join sep (y # ys)"

definition generate_performance_trends :: "world \<Rightarrow> visualizer \<Rightarrow> json list \<Rightarrow> string action" where
  "generate_performance_trends w self data =
     (if \<not> VISUALIZATION_AVAILABLE w \<or> data = [] then lift (generate_text_summary w data)
      else
        and_then (lift (df_data w data)) (\<lambda>rows.
          if rows = [] then lift (generate_text_summary w data)
          else
            and_then (check (plot_error w 0 rows)) (\<lambda>_.
            and_then (generate_overall_trends_chart w self rows) (\<lambda>c1.
            and_then (generate_group_performance_chart w self rows) (\<lambda>c2.
            and_then (generate_recent_changes_chart w self rows) (\<lambda>c3.
            and_then (generate_distribution_chart w self rows) (\<lambda>c4.
            returns (join ''\<newline>'' [c1, c2, c3, c4]))))))))"

subsection \<open>\<^verbatim>\<open>generate_index_html\<close>\<close>

text \<open>
  The template is an f-string with two fields: the clock, read and formatted when the
  method runs, and \<^verbatim>\<open>trends_content\<close>. The text around them is fixed; it is cut
  below at the two fields and around the title. The characters outside ASCII are given
  by the bytes the source file holds.
\<close>

definition dashboard_title :: string where
  "dashboard_title = ''LSPbridge Benchmark Dashboard''"

definition html_preamble :: string where
  \<open>html_preamble =
     ''<!DOCTYPE html>\<newline>'' @
     ''<html lang="en">\<newline>'' @
     ''<head>\<newline>'' @
     ''    <meta charset="UTF-8">\<newline>'' @
     ''    <meta name="viewport" content="width=device-width, initial-scale=1.0">\<newline>'' @
     ''    <title>''\<close>

definition html_header :: string where
  \<open>html_header =
     ''</title>\<newline>'' @
     ''    <style>\<newline>'' @
     ''        body {\<newline>'' @
     ''            font-family: -apple-system, BlinkMacSystemFont, '' @ [CHR 0x27] @ ''Segoe UI'' @ [CHR 0x27] @ '', Roboto, sans-serif;\<newline>'' @
     ''            line-height: 1.6;\<newline>'' @
     ''            color: #333;\<newline>'' @
     ''            max-width: 1200px;\<newline>'' @
     ''            margin: 0 auto;\<newline>'' @
     ''            padding: 20px;\<newline>'' @
     ''            background-color: #f5f5f5;\<newline>'' @
     ''        }\<newline>'' @
     ''        .header {\<newline>'' @
     ''            background: linear-gradient(135deg, #667eea 0%, #764ba2 100%);\<newline>'' @
     ''            color: white;\<newline>'' @
     ''            padding: 40px 20px;\<newline>'' @
     ''            border-radius: 10px;\<newline>'' @
     ''            text-align: center;\<newline>'' @
     ''            margin-bottom: 30px;\<newline>'' @
     ''        }\<newline>'' @
     ''        .content {\<newline>'' @
     ''            background: white;\<newline>'' @
     ''            padding: 30px;\<newline>'' @
     ''            border-radius: 10px;\<newline>'' @
     ''            box-shadow: 0 2px 10px rgba(0,0,0,0.1);\<newline>'' @
     ''        }\<newline>'' @
     ''        .metric {\<newline>'' @
     ''            display: inline-block;\<newline>'' @
     ''            background: #f8f9fa;\<newline>'' @
     ''            padding: 15px 20px;\<newline>'' @
     ''            margin: 10px;\<newline>'' @
     ''            border-radius: 8px;\<newline>'' @
     ''            border-left: 4px solid #007bff;\<newline>'' @
     ''        }\<newline>'' @
     ''        .chart {\<newline>'' @
     ''            text-align: center;\<newline>'' @
     ''            margin: 30px 0;\<newline>'' @
     ''        }\<newline>'' @
     ''        .chart img {\<newline>'' @
     ''            max-width: 100%;\<newline>'' @
     ''            height: auto;\<newline>'' @
     ''            border-radius: 8px;\<newline>'' @
     ''            box-shadow: 0 2px 8px rgba(0,0,0,0.1);\<newline>'' @
     ''        }\<newline>'' @
     ''        .footer {\<newline>'' @
     ''            text-align: center;\<newline>'' @
     ''            padding: 20px;\<newline>'' @
     ''            color: #666;\<newline>'' @
     ''            font-size: 0.9em;\<newline>'' @
     ''        }\<newline>'' @
     ''        h1, h2, h3 { color: #2c3e50; }\<newline>'' @
     ''        .status {\<newline>'' @
     ''            padding: 8px 16px;\<newline>'' @
     ''            border-radius: 20px;\<newline>'' @
     ''            display: inline-block;\<newline>'' @
     ''            font-weight: bold;\<newline>'' @
     ''            text-transform: uppercase;\<newline>'' @
     ''            font-size: 0.8em;\<newline>'' @
     ''        }\<newline>'' @
     ''        .status.good { background: #d4edda; color: #155724; }\<newline>'' @
     ''        .status.warning { background: #fff3cd; color: #856404; }\<newline>'' @
     ''        .status.error { background: #f8d7da; color: #721c24; }\<newline>'' @
     ''    </style>\<newline>'' @
     ''</head>\<newline>'' @
     ''<body>\<newline>'' @
     ''    <div class="header">\<newline>'' @
     ''        <h1>'' @ [CHR 0xEF, CHR 0xA3, CHR 0xBF, CHR 0xC3, CHR 0xBC, CHR 0xC3, CHR 0xB6, CHR 0xC3, CHR 0x84] @ '' LSPbridge Performance Dashboard</h1>\<newline>'' @
     ''        <p>Automated performance tracking and regression detection</p>\<newline>'' @
     ''        <span class="status good">System Healthy</span>\<newline>'' @
     ''    </div>\<newline>'' @
     ''    \<newline>'' @
     ''    <div class="content">\<newline>'' @
     ''        <div class="metrics">\<newline>'' @
     ''            <div class="metric">\<newline>'' @
     ''                <strong>Last Updated</strong><br>\<newline>'' @
     ''                ''\<close>

definition html_metrics :: string where
  \<open>html_metrics =
     ''\<newline>'' @
     ''            </div>\<newline>'' @
     ''            <div class="metric">\<newline>'' @
     ''                <strong>Monitoring</strong><br>\<newline>'' @
     ''                7 Benchmark Groups\<newline>'' @
     ''            </div>\<newline>'' @
     ''            <div class="metric">\<newline>'' @
     ''                <strong>Threshold</strong><br>\<newline>'' @
     ''                15% Regression Alert\<newline>'' @
     ''            </div>\<newline>'' @
     ''        </div>\<newline>'' @
     ''        \<newline>'' @
     ''        ''\<close>

definition html_footer :: string where
  \<open>html_footer =
     ''\<newline>'' @
     ''        \<newline>'' @
     ''        <h2>'' @ [CHR 0xEF, CHR 0xA3, CHR 0xBF, CHR 0xC3, CHR 0xBC, CHR 0xC3, CHR 0xAC, CHR 0xC3, CHR 0x85] @ '' Available Reports</h2>\<newline>'' @
     ''        <ul>\<newline>'' @
     ''            <li><a href="./latest/">Latest Results</a></li>\<newline>'' @
     ''            <li><a href="./archive/">Historical Archive</a></li>\<newline>'' @
     ''            <li><a href="https://github.com/your-org/lspbridge/actions">CI Pipeline</a></li>\<newline>'' @
     ''        </ul>\<newline>'' @
     ''    </div>\<newline>'' @
     ''    \<newline>'' @
     ''    <div class="footer">\<newline>'' @
     ''        Generated by LSPbridge Benchmark Dashboard | \<newline>'' @
     ''        <a href="https://github.com/your-org/lspbridge">View Source</a>\<newline>'' @
     ''    </div>\<newline>'' @
     ''</body>\<newline>'' @
     ''</html>''\<close>

text \<open>The first argument is the formatted reading of the clock.\<close>

definition generate_index_html :: "string \<Rightarrow> string \<Rightarrow> string" where
  "generate_index_html now trends_content =
     html_preamble @ dashboard_title @ html_header @ now @ html_metrics @
     trends_content @ html_footer"

subsection \<open>\<^verbatim>\<open>run\<close>\<close>

text \<open>The text written to \<^verbatim>\<open>README.md\<close>, an f-string with the same two fields.\<close>

definition readme_heading :: string where
  \<open>readme_heading =
     ''# LSPbridge Benchmark Dashboard\<newline>'' @
     ''\<newline>''\<close>

definition readme_body :: string where
  \<open>readme_body =
     ''\<newline>'' @
     ''\<newline>'' @
     ''## '' @ [CHR 0xEF, CHR 0xA3, CHR 0xBF, CHR 0xC3, CHR 0xBC, CHR 0xC3, CHR 0xAE, CHR 0xC3, CHR 0xB3] @ '' Navigation\<newline>'' @
     ''\<newline>'' @
     ''- ['' @ [CHR 0xEF, CHR 0xA3, CHR 0xBF, CHR 0xC3, CHR 0xBC, CHR 0xC3, CHR 0xAC, CHR 0xC3, CHR 0xA4] @ '' Interactive Dashboard](./index.html)\<newline>'' @
     ''- ['' @ [CHR 0xEF, CHR 0xA3, CHR 0xBF, CHR 0xC3, CHR 0xBC, CHR 0xC3, CHR 0xAC, CHR 0xC3, CHR 0x91] @ '' Latest Results](./latest/)\<newline>'' @
     ''- ['' @ [CHR 0xEF, CHR 0xA3, CHR 0xBF, CHR 0xC3, CHR 0xBC, CHR 0xC3, CHR 0xAC, CHR 0xC3, CHR 0xB6] @ '' Historical Archive](./archive/)\<newline>'' @
     ''\<newline>'' @
     ''## '' @ [CHR 0xEF, CHR 0xA3, CHR 0xBF, CHR 0xC3, CHR 0xBC, CHR 0xC3, CHR 0xAC, CHR 0xC3, CHR 0xA0] @ '' Performance Monitoring\<newline>'' @
     ''\<newline>'' @
     ''This dashboard automatically tracks performance across all LSPbridge benchmarks:\<newline>'' @
     ''\<newline>'' @
     ''- **Context Extraction**: File parsing and semantic analysis performance\<newline>'' @
     ''- **Context Ranking**: Algorithm efficiency for relevance scoring  \<newline>'' @
     ''- **Diagnostic Prioritization**: Error categorization and sorting speed\<newline>'' @
     ''- **Memory Usage**: Memory consumption patterns and cache efficiency\<newline>'' @
     ''- **Concurrent Throughput**: Parallel processing performance\<newline>'' @
     ''- **Cache Performance**: Hit rates and retrieval speeds\<newline>'' @
     ''- **Cold Start**: Initialization and startup performance\<newline>'' @
     ''\<newline>'' @
     ''## '' @ [CHR 0xEF, CHR 0xA3, CHR 0xBF, CHR 0xC3, CHR 0xBC, CHR 0xC3, CHR 0xB6, CHR 0xC2, CHR 0xAE] @ '' Regression Detection\<newline>'' @
     ''\<newline>'' @
     ''- **Threshold**: 15% performance degradation triggers alerts\<newline>'' @
     ''- **Memory Threshold**: 20% memory increase triggers warnings  \<newline>'' @
     ''- **Cache Threshold**: 10% cache hit rate decrease triggers investigation\<newline>'' @
     ''\<newline>'' @
     ''Generated: ''\<close>

definition readme_end :: string where
  \<open>readme_end =
     ''\<newline>''\<close>

definition readme_md :: "string \<Rightarrow> string \<Rightarrow> string" where
  "readme_md now trends_content =
     readme_heading @ trends_content @ readme_body @ now @ readme_end"

definition run :: "world \<Rightarrow> visualizer \<Rightarrow> unit action" where
  "run w self =
     and_then (perform w (Mkdir (reports_dir self))) (\<lambda>_.
     and_then (lift (load_benchmark_data self)) (\<lambda>data.
     and_then (generate_performance_trends w self data) (\<lambda>trends_content.
     and_then
       (perform w
          (WriteText (reports_dir self @ [''index.html''])
             (generate_index_html (strftime_now w 0) trends_content))) (\<lambda>_.
     perform w
       (WriteText (reports_dir self @ [''README.md''])
          (readme_md (strftime_now w 1) trends_content))))))"

subsection \<open>\<^verbatim>\<open>main\<close> and the status of the process\<close>

definition benchmark_dir :: "world \<Rightarrow> string" where
  "benchmark_dir w =
     (case environ w ''BENCHMARK_DIR'' of Some p \<Rightarrow> p | None \<Rightarrow> ''benchmark-results'')"

text \<open>
  \<^verbatim>\<open>except Exception\<close> around \<^verbatim>\<open>visualizer.run()\<close>: what was written before the
  exception stays written.
\<close>

definition except_Exception :: "unit action \<Rightarrow> unit action" where
  "except_Exception m =
     (case m of
        (calls, Inl e) \<Rightarrow> if is_Exception e then (calls, Inr ()) else (calls, Inl e)
      | (calls, Inr u) \<Rightarrow> (calls, Inr u))"

definition main :: "world \<Rightarrow> unit action" where
  "main w =
     (if \<not> path_exists (disk w (benchmark_dir w)) then
        perform w (MkdirParents [benchmark_dir w])
      else
        and_then (BenchmarkVisualizer w (benchmark_dir w))
          (\<lambda>visualizer. except_Exception (run w visualizer)))"

text \<open>
  The script ends with \<^verbatim>\<open>main()\<close>: the status of the process is zero when
  \<^verbatim>\<open>main\<close> returns, and the interpreter's status for the exception that leaves it
  otherwise.
\<close>

definition exit_status :: "unit action \<Rightarrow> nat" where
  "exit_status r =
     (case snd r of
        Inr u \<Rightarrow> 0
      | Inl e \<Rightarrow> if e = KeyboardInterrupt then 130 else 1)"

subsection \<open>Notions the properties are stated with\<close>

text \<open>
  What one entry of the archive contributes to \<^verbatim>\<open>data\<close>: the value of the first file
  the glob gives, when the entry is a directory and that file loads; nothing otherwise.
\<close>

definition first_run :: "node \<Rightarrow> json list" where
  "first_run nd =
     (case nd of
        Directory files \<Rightarrow>
          (case glob_parsed_json files of
             [] \<Rightarrow> []
           | parsed_file # _ \<Rightarrow>
               (case open_json_load (snd parsed_file) of Inr j \<Rightarrow> [j] | Inl e \<Rightarrow> []))
      | _ \<Rightarrow> [])"

text \<open>
  An entry aborts the load when its first file raises an exception that the
  \<^verbatim>\<open>except\<close> clause of the loop does not name.
\<close>

definition aborts :: "node \<Rightarrow> bool" where
  "aborts nd =
     (case nd of
        Directory files \<Rightarrow>
          (case glob_parsed_json files of
             [] \<Rightarrow> False
           | parsed_file # _ \<Rightarrow>
               (case open_json_load (snd parsed_file) of
                  Inr j \<Rightarrow> False
                | Inl e \<Rightarrow> \<not> is_load_error e))
      | _ \<Rightarrow> False)"

text \<open>
  A world for the examples: \<^verbatim>\<open>BENCHMARK_DIR\<close> is not set, the plotting libraries are
  missing, no call fails. It is used on inputs where no summary of a list that is not
  empty is asked for.
\<close>

definition example_world :: "(string \<rightharpoonup> node) \<Rightarrow> world" where
  "example_world d =
     \<lparr>environ = Map.empty, disk = d, VISUALIZATION_AVAILABLE = False,
      strftime_now = (\<lambda>n. ''2024-01-01 00:00:00''), io_error = (\<lambda>c. None),
      style_error = None, df_data = (\<lambda>rs. Inr []), plot_error = (\<lambda>k rs. None),
      text_summary = (\<lambda>rs. Inr [])\<rparr>"

text \<open>The text that stands for the trends when there is no run.\<close>

definition no_data_message :: string where
  "no_data_message = ''No benchmark data available for visualization.\<newline>''"

section \<open>Properties\<close>

subsection \<open>Loading\<close>

lemma archive_loop_step:
  "\<not> aborts nd \<Longrightarrow> archive_loop ((n, nd) # rest) data = archive_loop rest (data @ first_run nd)"
  by (cases nd) (auto simp: aborts_def first_run_def split: list.splits sum.splits)

lemma archive_loop_runs:
  "\<forall>e \<in> set es. \<not> aborts (snd e) \<Longrightarrow>
   archive_loop es data = Inr (data @ concat (map (\<lambda>e. first_run (snd e)) es))"
proof (induction es arbitrary: data)
  case Nil
  then show ?case by simp
next
  case (Cons e es)
  obtain n nd where e: "e = (n, nd)" by (cases e)
  with Cons.prems have "\<not> aborts nd" by simp
  then have "archive_loop (e # es) data = archive_loop es (data @ first_run nd)"
    unfolding e by (rule archive_loop_step)
  also have "\<dots> = Inr ((data @ first_run nd) @ concat (map (\<lambda>e. first_run (snd e)) es))"
    using Cons.prems by (intro Cons.IH) simp
  finally show ?case by (simp add: e del: archive_loop.simps)
qed


lemma map_insort_key: "map f (insort_key f x xs) = insort (f x) (map f xs)"
  by (induction xs) auto

lemma map_sort_key: "map f (sort_key f xs) = sort (map f xs)"
  by (induction xs) (auto simp: map_insort_key)

lemma concat_map_if: "concat (map (\<lambda>e. if P e then [g e] else []) xs) = map g (filter P xs)"
  by (induction xs) auto


lemma load_without_latest:
  "\<not> path_exists (child (latest_dir self) ''latest.json'') \<Longrightarrow>
   load_benchmark_data self = load_archive self"
  by (cases "load_archive self") (simp_all add: load_benchmark_data_def load_latest_def)





text \<open>
  C2. With no latest data, an archive in which every subdirectory holds exactly one file
  matching \<^verbatim>\<open>*_parsed.json\<close>, and that file loads, gives one run for each
  subdirectory, in the sorted order of the subdirectories' names. \<open>run_of\<close> gives the
  run a subdirectory's file holds, by the subdirectory's name; entries of the archive
  that are not directories are passed over.
\<close>

theorem archive_runs_in_sorted_order:
  assumes archive: "archive_dir self = Some (Directory es)"
    and valid: "\<forall>e \<in> set es. is_dir (snd e) \<longrightarrow>
       (\<exists>files f. snd e = Directory files \<and>
          glob_parsed_json files = [(f, RegularFile (Inr (run_of (fst e))))])"
    and no_latest: "\<not> path_exists (child (latest_dir self) ''latest.json'')"
  shows "load_benchmark_data self =
           Inr (map run_of (sort (map fst (filter (\<lambda>e. is_dir (snd e)) es)))) \<and>
         length (map run_of (sort (map fst (filter (\<lambda>e. is_dir (snd e)) es)))) =
           length (filter (\<lambda>e. is_dir (snd e)) es)"
proof -
  let ?dirs = "filter (\<lambda>e. is_dir (snd e))"
  have na: "\<not> aborts (snd e)" if "e \<in> set es" for e
    using valid that by (cases "snd e") (auto simp: aborts_def)
  have fr: "first_run (snd e) = (if is_dir (snd e) then [run_of (fst e)] else [])"
    if "e \<in> set es" for e
    using valid that by (cases "snd e") (auto simp: first_run_def)
  have "archive_loop (sort_key fst es) [] =
          Inr ([] @ concat (map (\<lambda>e. first_run (snd e)) (sort_key fst es)))"
    by (rule archive_loop_runs) (simp add: na)
  also have "concat (map (\<lambda>e. first_run (snd e)) (sort_key fst es)) =
        concat (map (\<lambda>e. if is_dir (snd e) then [run_of (fst e)] else []) (sort_key fst es))"
    by (rule arg_cong [where f = concat]) (simp add: fr)
  also have "\<dots> = map (\<lambda>e. run_of (fst e)) (?dirs (sort_key fst es))"
    by (rule concat_map_if)
  also have "\<dots> = map run_of (map fst (sort_key fst (?dirs es)))"
    by (simp add: filter_sort comp_def)
  also have "\<dots> = map run_of (sort (map fst (?dirs es)))"
    by (simp only: map_sort_key)
  finally have "load_archive self = Inr (map run_of (sort (map fst (?dirs es))))"
    by (simp add: load_archive_def archive)
  then show ?thesis
    using no_latest by (simp add: load_without_latest)
qed

theorem archive_runs_in_sorted_order_witness:
  "load_benchmark_data
     \<lparr>reports_dir = [''benchmark-results'', ''reports''],
      archive_dir = Some (Directory
        [(''run-b'', Directory [(''notes.txt'', RegularFile (Inl JSONDecodeError)),
                                (''b_parsed.json'', RegularFile (Inr (JStr ''B'')))]),
         (''README'', RegularFile (Inl JSONDecodeError)),
         (''run-c'', Directory [(''c_parsed.json'', RegularFile (Inr (JStr ''C'')))]),
         (''run-a'', Directory [(''a_parsed.json'', RegularFile (Inr (JStr ''A'')))])]),
      latest_dir = None\<rparr>
   = Inr [JStr ''A'', JStr ''B'', JStr ''C'']"
  (is "load_benchmark_data ?self = _")
proof -
  let ?es = "[(''run-b'', Directory [(''notes.txt'', RegularFile (Inl JSONDecodeError)),
                                (''b_parsed.json'', RegularFile (Inr (JStr ''B'')))]),
         (''README'', RegularFile (Inl JSONDecodeError)),
         (''run-c'', Directory [(''c_parsed.json'', RegularFile (Inr (JStr ''C'')))]),
         (''run-a'', Directory [(''a_parsed.json'', RegularFile (Inr (JStr ''A'')))])]"
  let ?run_of = "\<lambda>n. JStr (if n = ''run-a'' then ''A'' else if n = ''run-b'' then ''B'' else ''C'')"
  have 1: "archive_dir ?self = Some (Directory ?es)" by simp
  have 2: "\<forall>e \<in> set ?es. is_dir (snd e) \<longrightarrow>
       (\<exists>files f. snd e = Directory files \<and>
          glob_parsed_json files = [(f, RegularFile (Inr (?run_of (fst e))))])"
    by (simp add: glob_parsed_json_def suffix_to_prefix)
  have 3: "\<not> path_exists (child (latest_dir ?self) ''latest.json'')"
    by (simp add: child_def)
  from archive_runs_in_sorted_order [of ?self ?es ?run_of, OF 1 2 3] show ?thesis by simp
qed





subsection \<open>The trends and the dashboard page\<close>

text \<open>
  C5. On an empty list of runs \<^verbatim>\<open>generate_performance_trends\<close> returns the sentence
  below followed by one newline, whether or not the plotting libraries are there, and
  saves no figure.
\<close>

theorem no_runs_message:
  "generate_performance_trends w self [] =
     ([], Inr ''No benchmark data available for visualization.\<newline>'')"
  by (simp add: generate_performance_trends_def generate_text_summary_def lift_def)

theorem no_runs_message_witness:
  "generate_performance_trends
     ((example_world Map.empty)\<lparr>VISUALIZATION_AVAILABLE := True\<rparr>)
     \<lparr>reports_dir = [''benchmark-results'', ''reports''], archive_dir = None, latest_dir = None\<rparr> [] =
     ([], Inr ''No benchmark data available for visualization.\<newline>'')"
  by (rule no_runs_message)

text \<open>
  C6. The page \<^verbatim>\<open>generate_index_html\<close> returns contains the title text and contains
  \<^verbatim>\<open>trends_content\<close> as it was passed, as one contiguous piece.
\<close>

theorem index_html_embeds_title_and_trends:
  "sublist ''LSPbridge Benchmark Dashboard'' (generate_index_html now trends_content) \<and>
   sublist trends_content (generate_index_html now trends_content)"
proof
  have "generate_index_html now trends_content =
      html_preamble @ ''LSPbridge Benchmark Dashboard'' @
      (html_header @ now @ html_metrics @ trends_content @ html_footer)"
    by (simp only: generate_index_html_def dashboard_title_def append_assoc)
  then show "sublist ''LSPbridge Benchmark Dashboard'' (generate_index_html now trends_content)"
    unfolding sublist_def by blast
  have "generate_index_html now trends_content =
      (html_preamble @ dashboard_title @ html_header @ now @ html_metrics) @
      trends_content @ html_footer"
    by (simp only: generate_index_html_def append_assoc)
  then show "sublist trends_content (generate_index_html now trends_content)"
    unfolding sublist_def by blast
qed

theorem index_html_embeds_title_and_trends_witness:
  "sublist ''LSPbridge Benchmark Dashboard''
     (generate_index_html ''2024-01-01 00:00:00'' ''![Performance Trends](./performance_trends.png)'') \<and>
   sublist ''![Performance Trends](./performance_trends.png)''
     (generate_index_html ''2024-01-01 00:00:00'' ''![Performance Trends](./performance_trends.png)'')"
  by (rule index_html_embeds_title_and_trends)

text \<open>
  C7, as the claim states it, fails: the page holds the time at which it was generated,
  so two calls on the same \<^verbatim>\<open>trends_content\<close> a second apart return different pages.
\<close>

theorem index_html_reads_the_clock:
  "generate_index_html ''2024-01-01 00:00:00'' ''No benchmark data available for visualization.\<newline>'' \<noteq>
   generate_index_html ''2024-01-01 00:00:01'' ''No benchmark data available for visualization.\<newline>''"
  by (simp add: generate_index_html_def)

text \<open>
  C7, amended. The page is a function of \<^verbatim>\<open>trends_content\<close> and of the formatted
  reading of the clock: two calls on the same \<^verbatim>\<open>trends_content\<close> return the same page
  exactly when the clock reads the same to the second.
\<close>

theorem index_html_same_iff_same_clock:
  "generate_index_html now1 trends_content = generate_index_html now2 trends_content
     \<longleftrightarrow> now1 = now2"
  by (simp add: generate_index_html_def)

theorem index_html_same_iff_same_clock_witness:
  "generate_index_html ''2024-01-01 00:00:00'' no_data_message =
     generate_index_html ''2024-01-01 00:00:00'' no_data_message \<and>
   generate_index_html ''2024-01-01 00:00:00'' no_data_message \<noteq>
     generate_index_html ''2024-01-01 00:00:01'' no_data_message"
  using index_html_same_iff_same_clock
    [of "''2024-01-01 00:00:00''" no_data_message "''2024-01-01 00:00:01''"]
  by simp

subsection \<open>\<^verbatim>\<open>run\<close> and \<^verbatim>\<open>main\<close>\<close>

lemma run_success:
  assumes mk: "io_error w (Mkdir (reports_dir self)) = None"
    and ld: "load_benchmark_data self = Inr data"
    and tr: "generate_performance_trends w self data = (figures, Inr trends_content)"
    and ix: "io_error w (WriteText (reports_dir self @ [''index.html''])
               (generate_index_html (strftime_now w 0) trends_content)) = None"
    and rd: "io_error w (WriteText (reports_dir self @ [''README.md''])
               (readme_md (strftime_now w 1) trends_content)) = None"
  shows "run w self =
     (Mkdir (reports_dir self) # figures @
        [WriteText (reports_dir self @ [''index.html''])
           (generate_index_html (strftime_now w 0) trends_content),
         WriteText (reports_dir self @ [''README.md''])
           (readme_md (strftime_now w 1) trends_content)],
      Inr ())"
  using assms by (simp add: run_def and_then_def perform_def lift_def)

lemma load_empty:
  assumes "archive_dir self = None \<or> archive_dir self = Some (Directory [])"
    and "\<not> path_exists (child (latest_dir self) ''latest.json'')"
  shows "load_benchmark_data self = Inr []"
  using assms by (auto simp: load_without_latest load_archive_def)

lemma trends_empty: "generate_performance_trends w self [] = ([], Inr no_data_message)"
  by (simp add: generate_performance_trends_def generate_text_summary_def lift_def no_data_message_def)

lemma exit_status_except:
  "exit_status (except_Exception m) = 0 \<longleftrightarrow> (\<forall>e. snd m = Inl e \<longrightarrow> is_Exception e)"
  by (cases m) (auto simp: except_Exception_def exit_status_def split: sum.splits)

text \<open>
  C8, as the claim states it, fails: \<^verbatim>\<open>run\<close> handles no exception, so one raised
  before the writes leaves both files unwritten. Here the archive holds a file whose JSON
  is a list and latest data is present: comparing timestamps calls \<^verbatim>\<open>get\<close> on the
  list, and the \<^verbatim>\<open>AttributeError\<close> leaves \<^verbatim>\<open>load_benchmark_data\<close> and \<^verbatim>\<open>run\<close>
  after the reports directory was made.
\<close>

theorem run_stops_before_writing:
  "and_then
     (BenchmarkVisualizer
        (example_world
           [''benchmark-results'' \<mapsto> Directory
              [(''archive'', Directory
                  [(''run-1'', Directory [(''bench_parsed.json'', RegularFile (Inr (JArr [])))])]),
               (''latest'', Directory
                  [(''latest.json'', RegularFile (Inr (JObj []))),
                   (''bench_parsed.json'',
                      RegularFile (Inr (JObj [(''timestamp'', JStr ''T'')])))])]])
        ''benchmark-results'')
     (run
        (example_world
           [''benchmark-results'' \<mapsto> Directory
              [(''archive'', Directory
                  [(''run-1'', Directory [(''bench_parsed.json'', RegularFile (Inr (JArr [])))])]),
               (''latest'', Directory
                  [(''latest.json'', RegularFile (Inr (JObj []))),
                   (''bench_parsed.json'',
                      RegularFile (Inr (JObj [(''timestamp'', JStr ''T'')])))])]])) =
   ([Mkdir [''benchmark-results'', ''reports'']], Inl AttributeError)"
  by (simp add: BenchmarkVisualizer_def returns_def run_def and_then_def perform_def lift_def
      example_world_def load_benchmark_data_def load_archive_def load_latest_def child_def
      glob_parsed_json_def suffix_to_prefix)

text \<open>
  C8, amended. When making the reports directory, loading, generating the trends and
  the two writes raise no exception, \<^verbatim>\<open>run\<close> writes \<^verbatim>\<open>index.html\<close> and
  \<^verbatim>\<open>README.md\<close> below the reports directory, and both embed the one trends string that
  \<^verbatim>\<open>generate_performance_trends\<close> returned. With an archive that is missing or empty and
  no latest data, loading and generating raise nothing and the trends string is the
  message for no data: the two files are written as soon as the three calls succeed.
\<close>

theorem run_writes_both_reports:
  "(io_error w (Mkdir (reports_dir self)) = None \<and>
    load_benchmark_data self = Inr data \<and>
    generate_performance_trends w self data = (figures, Inr trends_content) \<and>
    io_error w (WriteText (reports_dir self @ [''index.html''])
      (generate_index_html (strftime_now w 0) trends_content)) = None \<and>
    io_error w (WriteText (reports_dir self @ [''README.md''])
      (readme_md (strftime_now w 1) trends_content)) = None
    \<longrightarrow>
    run w self =
      (Mkdir (reports_dir self) # figures @
        [WriteText (reports_dir self @ [''index.html''])
           (html_preamble @ dashboard_title @ html_header @ strftime_now w 0 @ html_metrics @
            trends_content @ html_footer),
         WriteText (reports_dir self @ [''README.md''])
           (readme_heading @ trends_content @ readme_body @ strftime_now w 1 @ readme_end)],
       Inr ())) \<and>
   ((archive_dir self = None \<or> archive_dir self = Some (Directory [])) \<and>
    \<not> path_exists (child (latest_dir self) ''latest.json'') \<and>
    io_error w (Mkdir (reports_dir self)) = None \<and>
    io_error w (WriteText (reports_dir self @ [''index.html''])
      (generate_index_html (strftime_now w 0) no_data_message)) = None \<and>
    io_error w (WriteText (reports_dir self @ [''README.md''])
      (readme_md (strftime_now w 1) no_data_message)) = None
    \<longrightarrow>
    run w self =
      ([Mkdir (reports_dir self),
        WriteText (reports_dir self @ [''index.html''])
          (generate_index_html (strftime_now w 0) no_data_message),
        WriteText (reports_dir self @ [''README.md''])
          (readme_md (strftime_now w 1) no_data_message)],
       Inr ()))"
proof (intro conjI impI; elim conjE)
  assume "io_error w (Mkdir (reports_dir self)) = None"
    and "load_benchmark_data self = Inr data"
    and "generate_performance_trends w self data = (figures, Inr trends_content)"
    and "io_error w (WriteText (reports_dir self @ [''index.html''])
      (generate_index_html (strftime_now w 0) trends_content)) = None"
    and "io_error w (WriteText (reports_dir self @ [''README.md''])
      (readme_md (strftime_now w 1) trends_content)) = None"
  then have "run w self =
     (Mkdir (reports_dir self) # figures @
        [WriteText (reports_dir self @ [''index.html''])
           (generate_index_html (strftime_now w 0) trends_content),
         WriteText (reports_dir self @ [''README.md''])
           (readme_md (strftime_now w 1) trends_content)],
      Inr ())"
    by (rule run_success)
  then show "run w self =
      (Mkdir (reports_dir self) # figures @
        [WriteText (reports_dir self @ [''index.html''])
           (html_preamble @ dashboard_title @ html_header @ strftime_now w 0 @ html_metrics @
            trends_content @ html_footer),
         WriteText (reports_dir self @ [''README.md''])
           (readme_heading @ trends_content @ readme_body @ strftime_now w 1 @ readme_end)],
       Inr ())"
    by (simp only: generate_index_html_def readme_md_def)
next
  assume empty: "archive_dir self = None \<or> archive_dir self = Some (Directory [])"
    and no_latest: "\<not> path_exists (child (latest_dir self) ''latest.json'')"
    and mk: "io_error w (Mkdir (reports_dir self)) = None"
    and ix: "io_error w (WriteText (reports_dir self @ [''index.html''])
      (generate_index_html (strftime_now w 0) no_data_message)) = None"
    and rd: "io_error w (WriteText (reports_dir self @ [''README.md''])
      (readme_md (strftime_now w 1) no_data_message)) = None"
  from empty no_latest have "load_benchmark_data self = Inr []"
    by (rule load_empty)
  with mk have "run w self =
     (Mkdir (reports_dir self) # [] @
        [WriteText (reports_dir self @ [''index.html''])
           (generate_index_html (strftime_now w 0) no_data_message),
         WriteText (reports_dir self @ [''README.md''])
           (readme_md (strftime_now w 1) no_data_message)],
      Inr ())"
    using trends_empty ix rd by (rule run_success)
  then show "run w self =
      ([Mkdir (reports_dir self),
        WriteText (reports_dir self @ [''index.html''])
          (generate_index_html (strftime_now w 0) no_data_message),
        WriteText (reports_dir self @ [''README.md''])
          (readme_md (strftime_now w 1) no_data_message)],
       Inr ())"
    by simp
qed

theorem run_writes_both_reports_witness:
  "run (example_world [''benchmark-results'' \<mapsto> Directory []])
     \<lparr>reports_dir = [''benchmark-results'', ''reports''], archive_dir = None, latest_dir = None\<rparr> =
   ([Mkdir [''benchmark-results'', ''reports''],
     WriteText [''benchmark-results'', ''reports'', ''index.html'']
       (generate_index_html ''2024-01-01 00:00:00'' no_data_message),
     WriteText [''benchmark-results'', ''reports'', ''README.md'']
       (readme_md ''2024-01-01 00:00:00'' no_data_message)],
    Inr ())"
  using run_writes_both_reports
    [of "example_world [''benchmark-results'' \<mapsto> Directory []]"
        "\<lparr>reports_dir = [''benchmark-results'', ''reports''], archive_dir = None, latest_dir = None\<rparr>"]
  by (simp add: example_world_def child_def)

text \<open>
  C9. When the benchmark directory does not exist, the one call the process makes is the
  creation of that directory: no reports directory is made, no file is written and no
  figure is saved. When the creation succeeds, that call is all \<^verbatim>\<open>main\<close> did, and it
  returns.
\<close>

theorem missing_benchmark_dir_only_created:
  assumes "\<not> path_exists (disk w (benchmark_dir w))"
  shows "(\<forall>call \<in> set (fst (main w)). call = MkdirParents [benchmark_dir w]) \<and>
         (io_error w (MkdirParents [benchmark_dir w]) = None \<longrightarrow>
            main w = ([MkdirParents [benchmark_dir w]], Inr ()) \<and> exit_status (main w) = 0)"
  using assms by (auto simp: main_def perform_def exit_status_def split: option.splits)


theorem missing_benchmark_dir_only_created_witness:
  "main ((example_world Map.empty)\<lparr>environ := [''BENCHMARK_DIR'' \<mapsto> ''out/bench'']\<rparr>) =
     ([MkdirParents [''out/bench'']], Inr ()) \<and>
   main (example_world Map.empty) = ([MkdirParents [''benchmark-results'']], Inr ())"
proof -
  let ?w = "(example_world Map.empty)\<lparr>environ := [''BENCHMARK_DIR'' \<mapsto> ''out/bench'']\<rparr>"
  let ?v = "example_world Map.empty :: world"
  have dir: "benchmark_dir ?w = ''out/bench''" "benchmark_dir ?v = ''benchmark-results''"
    by (simp_all add: example_world_def benchmark_dir_def)
  have missing: "\<not> path_exists (disk ?w (benchmark_dir ?w))" "\<not> path_exists (disk ?v (benchmark_dir ?v))"
    by (simp_all add: example_world_def)
  have ok: "io_error ?w (MkdirParents [benchmark_dir ?w]) = None"
    "io_error ?v (MkdirParents [benchmark_dir ?v]) = None"
    by (simp_all add: example_world_def)
  from missing_benchmark_dir_only_created [OF missing(1)] ok(1)
  have "main ?w = ([MkdirParents [benchmark_dir ?w]], Inr ())" by blast
  moreover from missing_benchmark_dir_only_created [OF missing(2)] ok(2)
  have "main ?v = ([MkdirParents [benchmark_dir ?v]], Inr ())" by blast
  ultimately show ?thesis by (simp only: dir)
qed

text \<open>
  C4, as the claim states it, fails twice. The creation of a missing benchmark directory
  is outside the \<^verbatim>\<open>try\<close>, so its exception ends the process with status 1. And
  \<^verbatim>\<open>except Exception\<close> does not catch \<^verbatim>\<open>KeyboardInterrupt\<close>: raised during
  \<^verbatim>\<open>run\<close>, here while a file of the archive is read, it leaves \<^verbatim>\<open>main\<close> and the
  status is not zero.
\<close>

theorem main_exits_nonzero:
  "exit_status
     (main ((example_world Map.empty)
        \<lparr>io_error := (\<lambda>call. if call = MkdirParents [''benchmark-results'']
                               then Some PermissionError else None)\<rparr>)) = 1 \<and>
   exit_status
     (main (example_world
        [''benchmark-results'' \<mapsto> Directory
           [(''archive'', Directory
               [(''run-1'', Directory
                   [(''bench_parsed.json'', RegularFile (Inl KeyboardInterrupt))])])]])) = 130"
proof
  let ?w = "(example_world Map.empty)
        \<lparr>io_error := (\<lambda>call. if call = MkdirParents [''benchmark-results'']
                               then Some PermissionError else None)\<rparr>"
  have dir: "benchmark_dir ?w = ''benchmark-results''"
    by (simp add: example_world_def benchmark_dir_def)
  have missing: "\<not> path_exists (disk ?w ''benchmark-results'')"
    by (simp add: example_world_def)
  have "io_error ?w (MkdirParents [''benchmark-results'']) = Some PermissionError"
    by simp
  with missing have "main ?w = ([], Inl PermissionError)"
    by (simp add: main_def dir perform_def del: fun_upd_apply)
  then show "exit_status (main ?w) = 1"
    by (simp add: exit_status_def)
next
  let ?d = "Directory
           [(''archive'', Directory
               [(''run-1'', Directory
                   [(''bench_parsed.json'', RegularFile (Inl KeyboardInterrupt))])])]"
  let ?w = "example_world [''benchmark-results'' \<mapsto> ?d]"
  let ?self = "\<lparr>reports_dir = [''benchmark-results'', ''reports''],
      archive_dir = Some (Directory
               [(''run-1'', Directory
                   [(''bench_parsed.json'', RegularFile (Inl KeyboardInterrupt))])]),
      latest_dir = None\<rparr>"
  have dir: "benchmark_dir ?w = ''benchmark-results''"
    by (simp add: example_world_def benchmark_dir_def)
  have there: "path_exists (disk ?w ''benchmark-results'')"
    by (simp add: example_world_def)
  have made: "BenchmarkVisualizer ?w ''benchmark-results'' = ([], Inr ?self)"
    by (simp add: example_world_def BenchmarkVisualizer_def and_then_def returns_def child_def)
  have "load_benchmark_data ?self = Inl KeyboardInterrupt"
    by (simp add: load_benchmark_data_def load_archive_def glob_parsed_json_def suffix_to_prefix)
  then have "run ?w ?self = ([Mkdir [''benchmark-results'', ''reports'']], Inl KeyboardInterrupt)"
    by (simp add: run_def and_then_def perform_def lift_def example_world_def)
  then have "except_Exception (run ?w ?self) =
      ([Mkdir [''benchmark-results'', ''reports'']], Inl KeyboardInterrupt)"
    by (simp add: except_Exception_def)
  with there made have "main ?w = ([Mkdir [''benchmark-results'', ''reports'']], Inl KeyboardInterrupt)"
    by (simp add: main_def dir and_then_def del: fun_upd_apply)
  then show "exit_status (main ?w) = 130"
    by (simp add: exit_status_def)
qed

text \<open>
  C4, amended. When the benchmark directory exists and the visualizer is constructed,
  the status is zero exactly when every exception that leaves \<^verbatim>\<open>run\<close> derives from
  \<^verbatim>\<open>Exception\<close>: all of those are caught. When the directory is missing and its
  creation succeeds, the status is zero.
\<close>

theorem main_exit_status:
  "(\<not> path_exists (disk w (benchmark_dir w)) \<and>
    io_error w (MkdirParents [benchmark_dir w]) = None
      \<longrightarrow> exit_status (main w) = 0) \<and>
   (path_exists (disk w (benchmark_dir w)) \<and>
    BenchmarkVisualizer w (benchmark_dir w) = ([], Inr self)
      \<longrightarrow> (exit_status (main w) = 0 \<longleftrightarrow> (\<forall>e. snd (run w self) = Inl e \<longrightarrow> is_Exception e)))"
proof (intro conjI impI; elim conjE)
  assume "\<not> path_exists (disk w (benchmark_dir w))"
    and "io_error w (MkdirParents [benchmark_dir w]) = None"
  then show "exit_status (main w) = 0"
    by (simp add: main_def perform_def exit_status_def)
next
  assume "path_exists (disk w (benchmark_dir w))"
    and "BenchmarkVisualizer w (benchmark_dir w) = ([], Inr self)"
  then have "main w = except_Exception (run w self)"
    by (cases "except_Exception (run w self)") (simp add: main_def and_then_def)
  then show "exit_status (main w) = 0 \<longleftrightarrow> (\<forall>e. snd (run w self) = Inl e \<longrightarrow> is_Exception e)"
    by (simp only: exit_status_except)
qed

theorem main_exit_status_witness:
  "exit_status
     (main ((example_world [''benchmark-results'' \<mapsto> Directory []])
        \<lparr>io_error := (\<lambda>call. if call = Mkdir [''benchmark-results'', ''reports'']
                               then Some PermissionError else None)\<rparr>)) = 0 \<and>
   exit_status (main (example_world Map.empty)) = 0"
proof -
  let ?w = "(example_world [''benchmark-results'' \<mapsto> Directory []])
        \<lparr>io_error := (\<lambda>call. if call = Mkdir [''benchmark-results'', ''reports'']
                               then Some PermissionError else None)\<rparr>"
  let ?v = "example_world Map.empty :: world"
  let ?self = "\<lparr>reports_dir = [''benchmark-results'', ''reports''],
                archive_dir = None, latest_dir = None\<rparr>"
  have dir: "benchmark_dir ?w = ''benchmark-results''" "benchmark_dir ?v = ''benchmark-results''"
    by (simp_all add: example_world_def benchmark_dir_def)
  have "run ?w ?self = ([], Inl PermissionError)"
    by (simp add: run_def and_then_def perform_def example_world_def)
  then have caught: "\<forall>e. snd (run ?w ?self) = Inl e \<longrightarrow> is_Exception e"
    by simp
  have there: "path_exists (disk ?w (benchmark_dir ?w))"
    by (simp add: dir) (simp add: example_world_def)
  have made: "BenchmarkVisualizer ?w (benchmark_dir ?w) = ([], Inr ?self)"
    by (simp add: dir) (simp add: example_world_def BenchmarkVisualizer_def and_then_def
        returns_def child_def)
  have missing: "\<not> path_exists (disk ?v (benchmark_dir ?v))"
    by (simp add: example_world_def)
  have ok: "io_error ?v (MkdirParents [benchmark_dir ?v]) = None"
    by (simp add: example_world_def)
  from main_exit_status [of ?w ?self] there made caught
  have "exit_status (main ?w) = 0" by blast
  moreover from main_exit_status [of ?v] missing ok
  have "exit_status (main ?v) = 0" by blast
  ultimately show ?thesis by blast
qed

end
